theory Spec2Isabelle
  imports Main
begin

section \<open>The entrypoint of wormhole-connector (cmd/root.go)\<close>

text \<open>
  The file \<^verbatim>\<open>cmd/root.go\<close> declares the command-line flags, binds them to
  configuration keys, and runs the connector: it builds the configuration value, sets the
  log level, subscribes to the interrupt signal, constructs the connector, starts it,
  waits in the probe and shuts down. The connector itself (package
  \<^verbatim>\<open>internal/connector\<close>) is called, not defined, in this file: its five
  operations are parameters of the model.
\<close>

subsection \<open>Flags, their defaults, and the keys bound to them\<close>

text \<open>
  A flag or configuration value. \<^verbatim>\<open>time.Duration\<close> is a count of
  nanoseconds.
\<close>

datatype val = VStr string | VInt int | VBool bool | VDur int

definition nanosecond :: int where "nanosecond = 1"
definition second :: int where "second = 1000000000 * nanosecond"
definition minute :: int where "minute = 60 * second"

text \<open>
  \<^verbatim>\<open>defaultDataDir = fmt.Sprintf("%s/.config/wormhole-connector", os.Getenv("HOME"))\<close>
\<close>

definition defaultDataDir :: "string \<Rightarrow> string" where
  "defaultDataDir homeDir = homeDir @ ''/.config/wormhole-connector''"

text \<open>
  The flags registered by \<^verbatim>\<open>init\<close> (lines 75 to 91), each with its default, in
  the order of the source.
\<close>

definition flagDefaults :: "string \<Rightarrow> (string \<times> val) list" where
  "flagDefaults homeDir =
    [(''config'', VStr ''''),
     (''kyma-server'', VStr ''https://localhost:9090''),
     (''kyma-reverse-tunnel-port'', VInt 9091),
     (''timeout'', VDur (5 * minute)),
     (''serf-member-addrs'', VStr ''''),
     (''serf-port'', VInt 1111),
     (''raft-port'', VInt 1112),
     (''local-addr'', VStr ''127.0.0.1:8080''),
     (''data-dir'', VStr (defaultDataDir homeDir)),
     (''trust-ca-file'', VStr ''''),
     (''insecure'', VBool False),
     (''cert-file'', VStr ''connector.pem''),
     (''key-file'', VStr ''connector-key.pem''),
     (''verbose'', VBool False),
     (''quiet'', VBool False),
     (''http-mode'', VBool False)]"

text \<open>
  The configuration keys bound to flags by \<^verbatim>\<open>viper.BindPFlag\<close> (lines 93 to
  106): key, then flag name. The flags \<^verbatim>\<open>verbose\<close> and \<^verbatim>\<open>quiet\<close> are bound
  to no key.
\<close>

definition bindings :: "(string \<times> string) list" where
  "bindings =
    [(''config'', ''config''),
     (''kymaServer'', ''kyma-server''),
     (''kymaReverseTunnelPort'', ''kyma-reverse-tunnel-port''),
     (''timeout'', ''timeout''),
     (''serf.memberAddrs'', ''serf-member-addrs''),
     (''serf.port'', ''serf-port''),
     (''raft.port'', ''raft-port''),
     (''localAddr'', ''local-addr''),
     (''dataDir'', ''data-dir''),
     (''trustCAFile'', ''trust-ca-file''),
     (''insecure'', ''insecure''),
     (''certFile'', ''cert-file''),
     (''keyFile'', ''key-file''),
     (''httpMode'', ''http-mode'')]"

text \<open>
  What the process is started with: the value of \<^verbatim>\<open>$HOME\<close>, the flags given
  on the command line (by flag name, with their parsed values), the environment variables
  that \<^verbatim>\<open>viper.AutomaticEnv\<close> looks up, and the content of the configuration
  file that \<^verbatim>\<open>initConfig\<close> read, if one was found. The entries of the
  environment and of the file are listed by the key path that viper asks for: the variable
  \<^verbatim>\<open>SERF.PORT\<close> is the entry \<^verbatim>\<open>serf.port\<close>, the variable
  \<^verbatim>\<open>SERF\<close> the entry \<^verbatim>\<open>serf\<close>; the file's \<^verbatim>\<open>port\<close> under
  \<^verbatim>\<open>serf\<close> is the entry \<^verbatim>\<open>serf.port\<close>, and a plain value written
  for \<^verbatim>\<open>serf\<close> itself is the entry \<^verbatim>\<open>serf\<close>.
\<close>

record sources =
  homeDir :: string
  cli :: "(string \<times> val) list"
  env :: "(string \<times> val) list"
  cfgfile :: "(string \<times> val) list"

text \<open>The first of two optional values that is present.\<close>

definition orElse :: "'a option \<Rightarrow> 'a option \<Rightarrow> 'a option" where
  "orElse a b = (case a of Some v \<Rightarrow> Some v | None \<Rightarrow> b)"

text \<open>
  A flag variable (\<^verbatim>\<open>flagCertFile\<close>, ...) holds the value given on the command
  line, or else the default of the flag.
\<close>

definition flagVar :: "sources \<Rightarrow> string \<Rightarrow> val option" where
  "flagVar src f = orElse (map_of (cli src) f) (map_of (flagDefaults (homeDir src)) f)"

text \<open>
  A lookup through viper, in the order of precedence of that library: a bound flag that
  was given on the command line, the environment, the configuration file, and last the
  default of the bound flag. For a nested key such as \<^verbatim>\<open>serf.port\<close>, each source
  that does not hold the key is asked whether it holds a value for a parent path of the
  key (\<^verbatim>\<open>serf\<close>); if it does, the key is shadowed there and the lookup ends with
  no value.
\<close>

definition givenFlag :: "sources \<Rightarrow> string \<Rightarrow> val option" where
  "givenFlag src k = Option.bind (map_of bindings k) (map_of (cli src))"

definition boundDefault :: "sources \<Rightarrow> string \<Rightarrow> val option" where
  "boundDefault src k = Option.bind (map_of bindings k) (map_of (flagDefaults (homeDir src)))"

text \<open>
  The parent paths of a key: what stands before each of its dots
  (\<^verbatim>\<open>serf\<close> for \<^verbatim>\<open>serf.port\<close>; none for \<^verbatim>\<open>kymaServer\<close>).
\<close>

fun parentsFrom :: "string \<Rightarrow> string \<Rightarrow> string list" where
  "parentsFrom pre [] = []"
| "parentsFrom pre (c # cs) =
    (if c = CHR ''.'' then pre # parentsFrom (pre @ [c]) cs
     else parentsFrom (pre @ [c]) cs)"

definition parentKeys :: "string \<Rightarrow> string list" where
  "parentKeys k = parentsFrom [] k"

text \<open>Whether one of the keys that a source holds is a parent path of the key asked for.\<close>

definition shadowedBy :: "string list \<Rightarrow> string \<Rightarrow> bool" where
  "shadowedBy held k = list_ex (\<lambda>p. p \<in> set held) (parentKeys k)"

text \<open>The rest of a lookup, unless the key is shadowed by one of the keys held.\<close>

definition unlessShadowed :: "string list \<Rightarrow> string \<Rightarrow> 'a option \<Rightarrow> 'a option" where
  "unlessShadowed held k rest = (if shadowedBy held k then None else rest)"

definition viperGet :: "sources \<Rightarrow> string \<Rightarrow> val option" where
  "viperGet src k =
    orElse (givenFlag src k)
      (unlessShadowed (map fst bindings) k
        (orElse (map_of (env src) k)
          (unlessShadowed (map fst (env src)) k
            (orElse (map_of (cfgfile src) k)
              (unlessShadowed (map fst (cfgfile src)) k
                (boundDefault src k))))))"


definition goInt :: "int \<Rightarrow> int" where
  "goInt i = (i + 2 ^ 63) mod 2 ^ 64 - 2 ^ 63"

text \<open>
  The typed readers. The values of the model are already of the kind of their flag (viper
  converts what it reads from the environment or from the file); a missing value, or one
  of another kind, reads as the zero value of the type.
\<close>

fun asString :: "val option \<Rightarrow> string" where
  "asString (Some (VStr s)) = s"
| "asString _ = ''''"

fun asInt :: "val option \<Rightarrow> int" where
  "asInt (Some (VInt i)) = goInt i"
| "asInt _ = 0"

fun asBool :: "val option \<Rightarrow> bool" where
  "asBool (Some (VBool b)) = b"
| "asBool _ = False"

fun asDuration :: "val option \<Rightarrow> int" where
  "asDuration (Some (VDur d)) = d"
| "asDuration _ = 0"

definition GetString :: "sources \<Rightarrow> string \<Rightarrow> string" where
  "GetString src k = asString (viperGet src k)"

definition GetInt :: "sources \<Rightarrow> string \<Rightarrow> int" where
  "GetInt src k = asInt (viperGet src k)"

definition GetBool :: "sources \<Rightarrow> string \<Rightarrow> bool" where
  "GetBool src k = asBool (viperGet src k)"

definition GetDuration :: "sources \<Rightarrow> string \<Rightarrow> int" where
  "GetDuration src k = asDuration (viperGet src k)"

text \<open>The flag variables that \<^verbatim>\<open>root.go\<close> reads directly.\<close>

definition flagCertFile :: "sources \<Rightarrow> string" where
  "flagCertFile src = asString (flagVar src ''cert-file'')"

definition flagKeyFile :: "sources \<Rightarrow> string" where
  "flagKeyFile src = asString (flagVar src ''key-file'')"

definition flagHttpMode :: "sources \<Rightarrow> bool" where
  "flagHttpMode src = asBool (flagVar src ''http-mode'')"

definition flagVerbose :: "sources \<Rightarrow> bool" where
  "flagVerbose src = asBool (flagVar src ''verbose'')"

definition flagQuiet :: "sources \<Rightarrow> bool" where
  "flagQuiet src = asBool (flagVar src ''quiet'')"

subsection \<open>The configuration value\<close>

record WormholeConnectorConfig =
  KymaServer :: string
  KymaReverseTunnelPort :: int
  RaftPort :: int
  LocalAddr :: string
  SerfMemberAddrs :: string
  SerfPort :: int
  Timeout :: int
  DataDir :: string
  TrustCAFile :: string
  Insecure :: bool
  HttpMode :: bool

text \<open>Lines 141 to 153 of \<^verbatim>\<open>runWormholeConnector\<close>.\<close>

definition buildConfig :: "sources \<Rightarrow> WormholeConnectorConfig" where
  "buildConfig src =
    \<lparr> KymaServer = GetString src ''kymaServer'',
      KymaReverseTunnelPort = GetInt src ''kymaReverseTunnelPort'',
      RaftPort = GetInt src ''raft.port'',
      LocalAddr = GetString src ''localAddr'',
      SerfMemberAddrs = GetString src ''serf.memberAddrs'',
      SerfPort = GetInt src ''serf.port'',
      Timeout = GetDuration src ''timeout'',
      DataDir = GetString src ''dataDir'',
      TrustCAFile = GetString src ''trustCAFile'',
      Insecure = GetBool src ''insecure'',
      HttpMode = GetBool src ''httpMode'' \<rparr>"

subsection \<open>The log level\<close>

datatype level =
  PanicLevel | FatalLevel | ErrorLevel | WarnLevel | InfoLevel | DebugLevel | TraceLevel

text \<open>
  \<^verbatim>\<open>setLogLevel\<close> (lines 126 to 138), on the two flag variables. \<^verbatim>\<open>log.Fatal\<close>
  does not return: the left injection carries its message.
\<close>

definition setLogLevel :: "bool \<Rightarrow> bool \<Rightarrow> string + level" where
  "setLogLevel verbose quiet =
    (if verbose \<and> quiet then Inl ''can't set both verbose and quiet flags''
     else if verbose then Inr DebugLevel
     else if quiet then Inr ErrorLevel
     else Inr InfoLevel)"

subsection \<open>The signal channel\<close>

datatype signal = SIGHUP | SIGINT | SIGQUIT | SIGTERM

text \<open>\<^verbatim>\<open>os.Interrupt\<close> is \<^verbatim>\<open>syscall.SIGINT\<close>.\<close>

definition os_Interrupt :: signal where
  "os_Interrupt = SIGINT"

text \<open>
  A channel of signals, as \<^verbatim>\<open>os/signal\<close> uses it: its capacity, the signals it
  is registered for, and the signals waiting in it.
\<close>

record sigchan =
  capacity :: nat
  subscribed :: "signal list"
  buffer :: "signal list"

definition makeChan :: "nat \<Rightarrow> sigchan" where
  "makeChan n = \<lparr> capacity = n, subscribed = [], buffer = [] \<rparr>"

definition signalNotify :: "sigchan \<Rightarrow> signal list \<Rightarrow> sigchan" where
  "signalNotify ch sigs = ch \<lparr> subscribed := subscribed ch @ sigs \<rparr>"

text \<open>
  The arrival of a signal at the process: the package relays it to a channel registered
  for it, without blocking, so a signal that finds the channel full is dropped. A signal
  the channel is not registered for does not reach it.
\<close>

definition deliver :: "sigchan \<Rightarrow> signal \<Rightarrow> sigchan" where
  "deliver ch sg =
    (if sg \<in> set (subscribed ch) \<and> length (buffer ch) < capacity ch
     then ch \<lparr> buffer := buffer ch @ [sg] \<rparr>
     else ch)"

fun deliverAll :: "sigchan \<Rightarrow> signal list \<Rightarrow> sigchan" where
  "deliverAll ch [] = ch"
| "deliverAll ch (sg # sgs) = deliverAll (deliver ch sg) sgs"

text \<open>Lines 157 and 158: the channel \<^verbatim>\<open>term\<close> after its registration.\<close>

definition termChan :: sigchan where
  "termChan = signalNotify (makeChan 2) [os_Interrupt]"

subsection \<open>The connector, as the entrypoint sees it\<close>

text \<open>
  A call into the connector either returns a value or does not return to the entrypoint
  (it blocks for ever, or the process ends inside the call).
\<close>

datatype 'a outcome = Returns 'a | NoReturn

text \<open>
  What the five operations of the connector do in one run. An error is its message;
  \<^verbatim>\<open>nil\<close> is \<open>None\<close>.
\<close>

record connector =
  newOutcome :: "string option outcome"
  listenOutcome :: "unit outcome"
  setupOutcome :: "string option outcome"
  probeOutcome :: "string option outcome"
  shutdownOutcome :: "string option outcome"

text \<open>
  What the entrypoint does, in order. The probe is called with the channel
  \<^verbatim>\<open>term\<close>, the shutdown with a context that carries a deadline.
\<close>

datatype event =
    BuildConfig WormholeConnectorConfig
  | SetLevel level
  | LogFatal string
  | LogInfo string
  | MakeChan nat
  | SignalNotify "signal list"
  | NewWormholeConnector WormholeConnectorConfig
  | ListenAndServe string string bool
  | SetupSerfRaft
  | ProbeSerfRaft
  | Shutdown int
  | Exit int

text \<open>
  \<^verbatim>\<open>log.Fatal(err)\<close> writes the entry and calls \<^verbatim>\<open>os.Exit(1)\<close>.
\<close>

definition logFatal :: "string \<Rightarrow> event list" where
  "logFatal msg = [LogFatal msg, Exit 1]"

text \<open>
  Lines 175 to 182: the context carries a deadline of five seconds; what
  \<^verbatim>\<open>Shutdown\<close> returns is not bound to any variable; \<^verbatim>\<open>os.Exit(0)\<close> follows.
\<close>

definition shutdownStep :: "string option outcome \<Rightarrow> event list" where
  "shutdownStep r =
    [LogInfo ''Shutting down server...'', Shutdown (5 * second)] @
    (case r of
       NoReturn \<Rightarrow> []
     | Returns _ \<Rightarrow> [Exit 0])"

text \<open>Lines 171 to 173, then the shutdown.\<close>

definition probeStep :: "connector \<Rightarrow> event list" where
  "probeStep c =
    ProbeSerfRaft #
    (case probeOutcome c of
       NoReturn \<Rightarrow> []
     | Returns (Some err) \<Rightarrow> logFatal err
     | Returns None \<Rightarrow> shutdownStep (shutdownOutcome c))"

text \<open>Lines 167 to 169, then the probe.\<close>

definition setupStep :: "connector \<Rightarrow> event list" where
  "setupStep c =
    SetupSerfRaft #
    (case setupOutcome c of
       NoReturn \<Rightarrow> []
     | Returns (Some err) \<Rightarrow> logFatal err
     | Returns None \<Rightarrow> probeStep c)"

text \<open>
  Line 165: the two paths and the mode come from the flag variables; nothing that the
  call returns is looked at.
\<close>

definition listenStep :: "sources \<Rightarrow> connector \<Rightarrow> event list" where
  "listenStep src c =
    ListenAndServe (flagCertFile src) (flagKeyFile src) (flagHttpMode src) #
    (case listenOutcome c of
       NoReturn \<Rightarrow> []
     | Returns _ \<Rightarrow> setupStep c)"

text \<open>\<^verbatim>\<open>runWormholeConnector\<close> (lines 140 to 183).\<close>

definition runWormholeConnector :: "sources \<Rightarrow> connector \<Rightarrow> event list" where
  "runWormholeConnector src c =
    (let config = buildConfig src in
     BuildConfig config #
     (case setLogLevel (flagVerbose src) (flagQuiet src) of
        Inl msg \<Rightarrow> logFatal msg
      | Inr lvl \<Rightarrow>
          [SetLevel lvl, MakeChan 2, SignalNotify [os_Interrupt], NewWormholeConnector config] @
          (case newOutcome c of
             NoReturn \<Rightarrow> []
           | Returns (Some err) \<Rightarrow> logFatal err
           | Returns None \<Rightarrow> listenStep src c)))"

subsection \<open>Starting the process with and without settings\<close>

text \<open>A start with no flag given, no matching environment variable and no configuration file.\<close>

definition defaultSources :: "string \<Rightarrow> sources" where
  "defaultSources h = \<lparr> homeDir = h, cli = [], env = [], cfgfile = [] \<rparr>"

text \<open>The same start with one more flag on the command line.\<close>

definition withFlag :: "string \<Rightarrow> val \<Rightarrow> sources \<Rightarrow> sources" where
  "withFlag f v src = src \<lparr> cli := (f, v) # cli src \<rparr>"

text \<open>The same start with one more environment variable.\<close>

definition withEnv :: "string \<Rightarrow> val \<Rightarrow> sources \<Rightarrow> sources" where
  "withEnv k v src = src \<lparr> env := (k, v) # env src \<rparr>"

text \<open>The same start with one more entry in the configuration file.\<close>

definition withFileKey :: "string \<Rightarrow> val \<Rightarrow> sources \<Rightarrow> sources" where
  "withFileKey k v src = src \<lparr> cfgfile := (k, v) # cfgfile src \<rparr>"



subsection \<open>Reading a run\<close>

text \<open>The status the process exits with, if the run ends in an exit.\<close>

fun exitStatus :: "event list \<Rightarrow> int option" where
  "exitStatus [] = None"
| "exitStatus (Exit n # es) = Some n"
| "exitStatus (e # es) = exitStatus es"

text \<open>The deadlines of the calls of \<^verbatim>\<open>Shutdown\<close> in a run.\<close>

fun shutdownDeadlines :: "event list \<Rightarrow> int list" where
  "shutdownDeadlines [] = []"
| "shutdownDeadlines (Shutdown d # es) = d # shutdownDeadlines es"
| "shutdownDeadlines (e # es) = shutdownDeadlines es"

text \<open>The creation of a channel and the registration of signals.\<close>

fun isSignalSetup :: "event \<Rightarrow> bool" where
  "isSignalSetup (MakeChan n) = True"
| "isSignalSetup (SignalNotify sgs) = True"
| "isSignalSetup e = False"

text \<open>The calls into the connector.\<close>

fun isCoreCall :: "event \<Rightarrow> bool" where
  "isCoreCall (NewWormholeConnector cfg) = True"
| "isCoreCall (ListenAndServe cert key http) = True"
| "isCoreCall SetupSerfRaft = True"
| "isCoreCall ProbeSerfRaft = True"
| "isCoreCall (Shutdown d) = True"
| "isCoreCall e = False"

text \<open>A connector all of whose operations return without an error.\<close>

definition okConnector :: connector where
  "okConnector =
    \<lparr> newOutcome = Returns None, listenOutcome = Returns (),
      setupOutcome = Returns None, probeOutcome = Returns None,
      shutdownOutcome = Returns None \<rparr>"

text \<open>A connector whose \<^verbatim>\<open>Shutdown\<close> returns an error, all else going well.\<close>

definition failingShutdown :: connector where
  "failingShutdown = okConnector \<lparr> shutdownOutcome := Returns (Some ''context deadline exceeded'') \<rparr>"

text \<open>
  A start with no flag on the command line, the certificate and the key named in the
  environment (\<^verbatim>\<open>CERTFILE\<close>, \<^verbatim>\<open>KEYFILE\<close>), and \<^verbatim>\<open>httpMode: true\<close> in
  the configuration file.
\<close>

definition tlsFromEnvironment :: sources where
  "tlsFromEnvironment =
    withEnv ''certFile'' (VStr ''/etc/wormhole/tls.pem'')
      (withEnv ''keyFile'' (VStr ''/etc/wormhole/tls-key.pem'')
        (withFileKey ''httpMode'' (VBool True) (defaultSources ''/root'')))"

text \<open>A start with both \<^verbatim>\<open>--verbose\<close> and \<^verbatim>\<open>--quiet\<close>.\<close>

definition verboseAndQuiet :: sources where
  "verboseAndQuiet =
    withFlag ''quiet'' (VBool True) (withFlag ''verbose'' (VBool True) (defaultSources ''/root''))"

section \<open>The core behind the entrypoint\<close>

text \<open>
  The package \<^verbatim>\<open>internal/connector\<close> and the gossip and consensus libraries it
  wires are outside \<^verbatim>\<open>cmd/root.go\<close>. The two models of this section follow the
  design document of the system instead.
\<close>

subsection \<open>Gossip membership: the status of a Peer\<close>

text \<open>
  Modelled from the spec: the status of a Peer in the membership table of the gossip
  layer (absent from the sources): alive, suspect, dead or left.
\<close>

datatype status = Alive | Suspect | Dead | Left

text \<open>
  Modelled from the spec: the membership record of a cluster member, kept by the gossip
  layer inside \<^verbatim>\<open>internal/connector\<close> (absent from the sources). The design
  gives a Peer a node identifier, an advertised address, an incarnation number, a status,
  a last-seen time and a voting eligibility. The count of consecutive missed probes and
  the times at which the Peer became suspect and dead are what the timed transitions of
  the design need.
\<close>

record peer =
  nodeId :: string
  address :: string
  incarnation :: nat
  status :: status
  lastSeen :: nat
  voter :: bool
  missed :: nat
  suspectSince :: nat
  deadSince :: nat

text \<open>
  Modelled from the spec: the parameters of the gossip layer (absent from the sources):
  the configured number of consecutive missed probes, the grace period of a suspect, the
  retention window of a dead Peer.
\<close>

record gossipParams =
  missLimit :: nat
  gracePeriod :: nat
  retention :: nat

text \<open>
  Modelled from the spec: what the gossip layer (absent from the sources) learns about a
  Peer: a probe answered or missed at a time, the passing of time, a refutation carrying
  an incarnation number, the announcement of a voluntary departure.
\<close>

datatype gossip = ProbeAck nat | ProbeMissed nat | Clock nat | Refutation nat | Departure

text \<open>
  Modelled from the spec: one transition of a Peer in the gossip layer (absent from the
  sources). A Peer moves from alive to suspect after missing the configured number of
  consecutive probes, from suspect to dead after a further grace period without
  refutation, and is evicted (\<open>None\<close>) after the retention window; a refutation takes
  a suspect back to alive; a departure takes a live or suspect Peer to left. Left and dead
  are terminal.
\<close>

definition gossipStep :: "gossipParams \<Rightarrow> peer \<Rightarrow> gossip \<Rightarrow> peer option" where
  "gossipStep P p ev =
    (case status p of
       Alive \<Rightarrow>
         (case ev of
            ProbeAck t \<Rightarrow> Some (p \<lparr> lastSeen := t, missed := 0 \<rparr>)
          | ProbeMissed t \<Rightarrow>
              (if missLimit P \<le> missed p + 1
               then Some (p \<lparr> status := Suspect, missed := missed p + 1, suspectSince := t \<rparr>)
               else Some (p \<lparr> missed := missed p + 1 \<rparr>))
          | Clock t \<Rightarrow> Some p
          | Refutation n \<Rightarrow>
              (if incarnation p < n then Some (p \<lparr> incarnation := n \<rparr>) else Some p)
          | Departure \<Rightarrow> Some (p \<lparr> status := Left \<rparr>))
     | Suspect \<Rightarrow>
         (case ev of
            ProbeAck t \<Rightarrow> Some p
          | ProbeMissed t \<Rightarrow> Some p
          | Clock t \<Rightarrow>
              (if suspectSince p + gracePeriod P \<le> t
               then Some (p \<lparr> status := Dead, deadSince := t \<rparr>)
               else Some p)
          | Refutation n \<Rightarrow>
              (if incarnation p < n
               then Some (p \<lparr> incarnation := n, status := Alive, missed := 0 \<rparr>)
               else Some p)
          | Departure \<Rightarrow> Some (p \<lparr> status := Left \<rparr>))
     | Dead \<Rightarrow>
         (case ev of
            Clock t \<Rightarrow> (if deadSince p + retention P \<le> t then None else Some p)
          | _ \<Rightarrow> Some p)
     | Left \<Rightarrow> Some p)"

text \<open>
  The statuses a Peer goes through under a sequence of events, the first being the one it
  starts with; the sequence ends when the Peer is evicted.
\<close>

fun statuses :: "gossipParams \<Rightarrow> peer \<Rightarrow> gossip list \<Rightarrow> status list" where
  "statuses P p [] = [status p]"
| "statuses P p (ev # evs) =
    status p #
    (case gossipStep P p ev of
       None \<Rightarrow> []
     | Some p' \<Rightarrow> statuses P p' evs)"

text \<open>The changes of status that the design allows.\<close>

definition allowedChange :: "status \<Rightarrow> status \<Rightarrow> bool" where
  "allowedChange a b =
    ((a, b) \<in> {(Alive, Suspect), (Suspect, Dead), (Suspect, Alive), (Alive, Left), (Suspect, Left)})"

text \<open>A Peer that has just joined, and a setting of the gossip layer, to run the model on.\<close>

definition samplePeer :: peer where
  "samplePeer =
    \<lparr> nodeId = ''connector-0'', address = ''10.0.0.1:1111'', incarnation = 1, status = Alive,
      lastSeen = 0, voter = True, missed = 0, suspectSince = 0, deadSince = 0 \<rparr>"

definition sampleParams :: gossipParams where
  "sampleParams = \<lparr> missLimit = 1, gracePeriod = 5, retention = 10 \<rparr>"

subsection \<open>The lifecycle of the running handle\<close>

text \<open>
  Modelled from the spec: where the running handle (absent from the sources) is in its
  life: no shutdown requested yet, a shutdown in progress, the shutdown completed.
\<close>

datatype phase = Running | Draining | Stopped

text \<open>
  Modelled from the spec: the running handle that \<^verbatim>\<open>NewWormholeConnector\<close>
  returns (defined in \<^verbatim>\<open>internal/connector\<close>, absent from the sources), as the
  lifecycle coordinator of the design sees it: whether the Dispatcher accepts new
  Sessions, whether the Tunnel Client accepts new Streams, the Streams in flight, whether
  the departure was announced, whether the transport was released.
\<close>

record handle =
  phase :: phase
  acceptingSessions :: bool
  acceptingStreams :: bool
  inflight :: "nat list"
  departed :: bool
  transportReleased :: bool

text \<open>
  Modelled from the spec: the side effects of the lifecycle coordinator (absent from the
  sources).
\<close>

datatype effect =
  StopSessions | StopStreams | CancelStream nat | AnnounceDeparture | ReleaseTransport

text \<open>
  Modelled from the spec: what reaches the lifecycle coordinator (absent from the
  sources): a termination request, a new Stream, the end of a Stream in flight, the expiry
  of the grace deadline.
\<close>

datatype request = ShutdownRequest | OpenStream nat | StreamDone nat | GraceExpired

text \<open>
  Modelled from the spec: the end of a shutdown (absent from the sources): the Streams
  still in flight are aborted with a cancellation error, the departure is announced, and
  the transport is released last.
\<close>

definition finish :: "handle \<Rightarrow> handle \<times> effect list" where
  "finish h =
    (h \<lparr> phase := Stopped, inflight := [], departed := True, transportReleased := True \<rparr>,
     map CancelStream (inflight h) @ [AnnounceDeparture, ReleaseTransport])"

text \<open>
  Modelled from the spec: one step of the lifecycle coordinator behind
  \<^verbatim>\<open>Shutdown\<close> (absent from the sources). On a termination request the
  Dispatcher stops accepting Sessions and the Tunnel Client stops accepting Streams;
  Streams in flight may finish until the grace deadline; then the shutdown ends. A
  termination request that finds a shutdown in progress, or completed, is a no-op.
\<close>

definition handleStep :: "handle \<Rightarrow> request \<Rightarrow> handle \<times> effect list" where
  "handleStep h r =
    (case r of
       ShutdownRequest \<Rightarrow>
         (if phase h = Running
          then (let h1 = h \<lparr> phase := Draining, acceptingSessions := False,
                               acceptingStreams := False \<rparr>
                in if inflight h1 = []
                   then (fst (finish h1), [StopSessions, StopStreams] @ snd (finish h1))
                   else (h1, [StopSessions, StopStreams]))
          else (h, []))
     | OpenStream i \<Rightarrow>
         (if acceptingStreams h then (h \<lparr> inflight := inflight h @ [i] \<rparr>, []) else (h, []))
     | StreamDone i \<Rightarrow>
         (let h1 = h \<lparr> inflight := removeAll i (inflight h) \<rparr>
          in if phase h = Draining \<and> inflight h1 = [] then finish h1 else (h1, []))
     | GraceExpired \<Rightarrow>
         (if phase h = Draining then finish h else (h, [])))"

text \<open>A sequence of steps: the handle reached and the side effects, in order.\<close>

fun handleRun :: "handle \<Rightarrow> request list \<Rightarrow> handle \<times> effect list" where
  "handleRun h [] = (h, [])"
| "handleRun h (r # rs) =
    (let (h1, es1) = handleStep h r;
         (h2, es2) = handleRun h1 rs
     in (h2, es1 @ es2))"

section \<open>Properties of the entrypoint\<close>

subsection \<open>Lookups\<close>

lemmas run_defs = runWormholeConnector_def listenStep_def setupStep_def probeStep_def
  shutdownStep_def logFatal_def

lemmas source_defs = defaultSources_def withFlag_def withEnv_def withFileKey_def
  flagVar_def viperGet_def givenFlag_def boundDefault_def orElse_def bindings_def
  flagDefaults_def unlessShadowed_def shadowedBy_def parentKeys_def goInt_def

lemmas get_defs = GetString_def GetInt_def GetBool_def GetDuration_def

lemmas flag_defs = flagCertFile_def flagKeyFile_def flagHttpMode_def flagVerbose_def
  flagQuiet_def



lemma flagVar_withFlag:
  "flagVar (withFlag f v src) g = (if g = f then Some v else flagVar src g)"
  by (simp add: flagVar_def withFlag_def orElse_def)










subsection \<open>The log level\<close>

text \<open>
  C8: if both the verbose and the quiet flag are set, the run ends fatally in
  \<^verbatim>\<open>setLogLevel\<close>: the configuration value has been built, and nothing follows but
  the fatal log entry and the exit with status 1, so the connector is not constructed.
  Otherwise the level is set to Debug when verbose is set, to Error when quiet is set, and
  to Info when neither is.
\<close>

theorem log_level_or_fatal:
  "(flagVerbose src \<and> flagQuiet src \<longrightarrow>
      setLogLevel (flagVerbose src) (flagQuiet src) =
        Inl ''can't set both verbose and quiet flags'' \<and>
      runWormholeConnector src c =
        [BuildConfig (buildConfig src),
         LogFatal ''can't set both verbose and quiet flags'', Exit 1]) \<and>
   (\<not> (flagVerbose src \<and> flagQuiet src) \<longrightarrow>
      setLogLevel (flagVerbose src) (flagQuiet src) =
        Inr (if flagVerbose src then DebugLevel
             else if flagQuiet src then ErrorLevel else InfoLevel) \<and>
      take 2 (runWormholeConnector src c) =
        [BuildConfig (buildConfig src),
         SetLevel (if flagVerbose src then DebugLevel
                   else if flagQuiet src then ErrorLevel else InfoLevel)])"
  by (simp add: runWormholeConnector_def setLogLevel_def logFatal_def Let_def)

theorem log_level_or_fatal_witness:
  "runWormholeConnector verboseAndQuiet okConnector =
     [BuildConfig (buildConfig verboseAndQuiet),
      LogFatal ''can't set both verbose and quiet flags'', Exit 1] \<and>
   take 2 (runWormholeConnector (defaultSources ''/root'') okConnector) =
     [BuildConfig (buildConfig (defaultSources ''/root'')), SetLevel InfoLevel]"
proof -
  have both: "flagVerbose verboseAndQuiet \<and> flagQuiet verboseAndQuiet"
    by (simp add: verboseAndQuiet_def flagVerbose_def flagQuiet_def flagVar_withFlag)
  have neither:
    "\<not> flagVerbose (defaultSources ''/root'') \<and> \<not> flagQuiet (defaultSources ''/root'')"
    by (simp add: flagVerbose_def flagQuiet_def source_defs)
  show ?thesis
    using both neither log_level_or_fatal [of verboseAndQuiet okConnector]
      log_level_or_fatal [of "defaultSources ''/root''" okConnector]
    by simp
qed

subsection \<open>The exit status after the shutdown\<close>

text \<open>
  C9: in every run that reaches the call of \<^verbatim>\<open>Shutdown\<close>, the process exits
  with no other status than 0; and whatever value the call returns, the process exits
  with status 0, the exit is the last thing that happens, and the run is the same as with
  any other returned value: an error of the shutdown is discarded.
\<close>

theorem exit_zero_whatever_shutdown_returns:
  "Shutdown d \<in> set (runWormholeConnector src c) \<Longrightarrow>
     (\<forall>n. exitStatus (runWormholeConnector src c) = Some n \<longrightarrow> n = 0) \<and>
     (shutdownOutcome c = Returns r \<longrightarrow>
        exitStatus (runWormholeConnector src c) = Some 0 \<and>
        last (runWormholeConnector src c) = Exit 0 \<and>
        runWormholeConnector src (c \<lparr> shutdownOutcome := Returns r' \<rparr>) =
          runWormholeConnector src c)"
  by (auto simp: run_defs setLogLevel_def Let_def
      split: outcome.splits option.splits if_splits)

theorem exit_zero_whatever_shutdown_returns_witness:
  "exitStatus (runWormholeConnector (defaultSources ''/root'') failingShutdown) = Some 0 \<and>
   last (runWormholeConnector (defaultSources ''/root'') failingShutdown) = Exit 0 \<and>
   runWormholeConnector (defaultSources ''/root'')
       (failingShutdown \<lparr> shutdownOutcome := Returns None \<rparr>) =
     runWormholeConnector (defaultSources ''/root'') failingShutdown"
proof -
  have reached:
    "Shutdown (5 * second) \<in> set (runWormholeConnector (defaultSources ''/root'') failingShutdown)"
    by (simp add: run_defs failingShutdown_def okConnector_def setLogLevel_def Let_def
        flag_defs source_defs)
  have returned: "shutdownOutcome failingShutdown = Returns (Some ''context deadline exceeded'')"
    by (simp add: failingShutdown_def)
  show ?thesis
    using returned
      exit_zero_whatever_shutdown_returns [OF reached,
        of "Some ''context deadline exceeded''" None]
    by simp
qed

subsection \<open>The default ports\<close>









subsection \<open>What is handed to the connector\<close>

text \<open>
  C2, at the start \<open>tlsFromEnvironment\<close>: the configuration layer resolves the
  certificate to \<^verbatim>\<open>/etc/wormhole/tls.pem\<close>, the key to
  \<^verbatim>\<open>/etc/wormhole/tls-key.pem\<close> and the http mode to true, and the configuration
  value says http mode; \<^verbatim>\<open>ListenAndServe\<close> is called with the defaults of the
  three flag variables instead.
\<close>

theorem listen_receives_flag_variables:
  "GetString tlsFromEnvironment ''certFile'' = ''/etc/wormhole/tls.pem'' \<and>
   GetString tlsFromEnvironment ''keyFile'' = ''/etc/wormhole/tls-key.pem'' \<and>
   GetBool tlsFromEnvironment ''httpMode'' = True \<and>
   HttpMode (buildConfig tlsFromEnvironment) = True \<and>
   filter isCoreCall (runWormholeConnector tlsFromEnvironment okConnector) =
     [NewWormholeConnector (buildConfig tlsFromEnvironment),
      ListenAndServe ''connector.pem'' ''connector-key.pem'' False,
      SetupSerfRaft, ProbeSerfRaft, Shutdown (5 * second)]"
  by (simp add: tlsFromEnvironment_def run_defs okConnector_def setLogLevel_def Let_def
      buildConfig_def get_defs source_defs flag_defs)

subsection \<open>Startup errors and the call of the shutdown\<close>

text \<open>
  An error returned by \<^verbatim>\<open>NewWormholeConnector\<close>, \<^verbatim>\<open>SetupSerfRaft\<close> or
  \<^verbatim>\<open>ProbeSerfRaft\<close> ends the run with a fatal log entry and status 1, and
  \<^verbatim>\<open>Shutdown\<close> is not called.
\<close>

lemma error_is_fatal:
  "\<not> (flagVerbose src \<and> flagQuiet src) \<Longrightarrow>
     newOutcome c = Returns (Some e) \<or>
     newOutcome c = Returns None \<and> listenOutcome c = Returns () \<and>
       (setupOutcome c = Returns (Some e) \<or>
        setupOutcome c = Returns None \<and> probeOutcome c = Returns (Some e)) \<Longrightarrow>
     exitStatus (runWormholeConnector src c) = Some 1 \<and>
     last (runWormholeConnector src c) = Exit 1 \<and>
     LogFatal e \<in> set (runWormholeConnector src c) \<and>
     shutdownDeadlines (runWormholeConnector src c) = []"
  by (auto simp: run_defs setLogLevel_def Let_def)

text \<open>
  \<^verbatim>\<open>Shutdown\<close> is called at most once in a run, with a deadline of five seconds, and
  it is called when the probe returns without an error.
\<close>

lemma shutdown_at_most_once:
  "shutdownDeadlines (runWormholeConnector src c) =
     (if \<not> (flagVerbose src \<and> flagQuiet src) \<and> newOutcome c = Returns None \<and>
         listenOutcome c = Returns () \<and> setupOutcome c = Returns None \<and>
         probeOutcome c = Returns None
      then [5 * second] else [])"
  by (auto simp: run_defs setLogLevel_def Let_def split: outcome.splits option.splits)

subsection \<open>The signal channel\<close>

lemma deliverAll_interrupts:
  "subscribed ch = [SIGINT] \<Longrightarrow> length (buffer ch) \<le> capacity ch \<Longrightarrow>
     buffer (deliverAll ch sgs) =
       take (capacity ch) (buffer ch @ filter (\<lambda>sg. sg = SIGINT) sgs)"
proof (induction sgs arbitrary: ch)
  case Nil
  then show ?case by simp
next
  case (Cons sg sgs)
  show ?case
  proof (cases "sg = SIGINT \<and> length (buffer ch) < capacity ch")
    case True
    define ch' where "ch' = ch \<lparr> buffer := buffer ch @ [SIGINT] \<rparr>"
    from True have sg: "sg = SIGINT" and room: "length (buffer ch) < capacity ch"
      by simp_all
    have d: "deliver ch SIGINT = ch'"
      using Cons.prems room by (simp add: deliver_def ch'_def)
    have "buffer (deliverAll ch' sgs) =
        take (capacity ch') (buffer ch' @ filter (\<lambda>sg. sg = SIGINT) sgs)"
      using Cons.prems room by (intro Cons.IH) (simp_all add: ch'_def)
    then have "buffer (deliverAll ch' sgs) =
        take (capacity ch) (buffer ch @ SIGINT # filter (\<lambda>sg. sg = SIGINT) sgs)"
      by (simp add: ch'_def del: take_append)
    then show ?thesis
      by (simp add: sg d del: take_append)
  next
    case False
    then have d: "deliver ch sg = ch"
      using Cons.prems by (auto simp: deliver_def)
    have ih: "buffer (deliverAll ch sgs) =
        take (capacity ch) (buffer ch @ filter (\<lambda>sg. sg = SIGINT) sgs)"
      using Cons.prems by (intro Cons.IH)
    show ?thesis
    proof (cases "sg = SIGINT")
      case True
      with False Cons.prems have full: "length (buffer ch) = capacity ch" by simp
      from d True have d': "deliver ch SIGINT = ch" by simp
      show ?thesis using ih full by (simp add: True d')
    next
      case False
      then show ?thesis using ih by (simp add: d)
    qed
  qed
qed

text \<open>
  C10: the channel \<^verbatim>\<open>term\<close> has capacity 2 and is registered for the interrupt
  signal (SIGINT) and for nothing else, SIGTERM in particular; whatever signals arrive at
  the process, what the channel holds is the first two interrupts among them; and a run
  that gets past \<^verbatim>\<open>setLogLevel\<close> creates this one channel and makes this one
  registration.
\<close>

theorem term_channel_interrupt_only:
  "capacity termChan = 2 \<and> subscribed termChan = [SIGINT] \<and> buffer termChan = [] \<and>
   SIGTERM \<notin> set (subscribed termChan) \<and>
   buffer (deliverAll termChan sgs) = take 2 (filter (\<lambda>sg. sg = SIGINT) sgs) \<and>
   filter isSignalSetup (runWormholeConnector src c) =
     (if flagVerbose src \<and> flagQuiet src then []
      else [MakeChan (capacity termChan), SignalNotify (subscribed termChan)])"
proof -
  have t: "capacity termChan = 2" "subscribed termChan = [SIGINT]" "buffer termChan = []"
    by (simp_all add: termChan_def signalNotify_def makeChan_def os_Interrupt_def)
  have b: "buffer (deliverAll termChan sgs) = take 2 (filter (\<lambda>sg. sg = SIGINT) sgs)"
    using deliverAll_interrupts [of termChan sgs] by (simp add: t)
  have r: "filter isSignalSetup (runWormholeConnector src c) =
     (if flagVerbose src \<and> flagQuiet src then []
      else [MakeChan (capacity termChan), SignalNotify (subscribed termChan)])"
    by (simp add: t run_defs setLogLevel_def Let_def os_Interrupt_def
        split: outcome.splits option.splits)
  show ?thesis using t b r by simp
qed

section \<open>Properties of the core, on the models of the design\<close>

subsection \<open>The shutdown is idempotent\<close>

lemma handleStep_not_running:
  "phase h \<noteq> Running \<Longrightarrow> phase (fst (handleStep h r)) \<noteq> Running"
  by (cases r) (simp_all add: handleStep_def finish_def Let_def)

lemma handleStep_request_not_running:
  "phase (fst (handleStep h ShutdownRequest)) \<noteq> Running"
  by (simp add: handleStep_def finish_def Let_def)

lemma handleRun_not_running:
  "phase h \<noteq> Running \<Longrightarrow> phase (fst (handleRun h rs)) \<noteq> Running"
proof (induction rs arbitrary: h)
  case Nil
  then show ?case by simp
next
  case (Cons r rs)
  from Cons.prems have "phase (fst (handleStep h r)) \<noteq> Running"
    by (rule handleStep_not_running)
  then have "phase (fst (handleRun (fst (handleStep h r)) rs)) \<noteq> Running"
    by (rule Cons.IH)
  then show ?case by (simp add: split_beta Let_def)
qed

text \<open>
  C6: take any state of the handle, a shutdown request, and whatever happens next
  (nothing, so that the shutdown is still in progress; the end of Streams or the expiry of
  the grace deadline, so that it completes; further requests). A shutdown request made
  then leaves the handle as it is and has no side effect.
\<close>

theorem shutdown_idempotent:
  "handleStep (fst (handleRun h (ShutdownRequest # rs))) ShutdownRequest =
     (fst (handleRun h (ShutdownRequest # rs)), [])"
proof -
  have "phase (fst (handleRun (fst (handleStep h ShutdownRequest)) rs)) \<noteq> Running"
    using handleStep_request_not_running by (rule handleRun_not_running)
  then have "phase (fst (handleRun h (ShutdownRequest # rs))) \<noteq> Running"
    by (simp add: split_beta Let_def)
  then show ?thesis by (simp add: handleStep_def)
qed

subsection \<open>Dead only after suspect\<close>

lemma gossipStep_change:
  "gossipStep P p ev = Some p' \<Longrightarrow>
     status p' = status p \<or> allowedChange (status p) (status p')"
  by (cases "status p"; cases ev)
    (auto simp: gossipStep_def allowedChange_def split: if_splits)

lemma into_dead_from_suspect:
  "gossipStep P p ev = Some p' \<Longrightarrow> status p' = Dead \<Longrightarrow> status p \<noteq> Dead \<Longrightarrow>
     status p = Suspect"
  using gossipStep_change [of P p ev p'] by (auto simp: allowedChange_def)

lemma statuses_head: "\<exists>rest. statuses P p evs = status p # rest"
  by (cases evs) simp_all

lemma dead_after_suspect:
  "status p \<noteq> Dead \<Longrightarrow> Dead \<in> set (statuses P p evs) \<Longrightarrow>
     \<exists>pre post. statuses P p evs = pre @ Suspect # Dead # post \<and> Dead \<notin> set pre"
proof (induction evs arbitrary: p)
  case Nil
  then show ?case by simp
next
  case (Cons ev evs)
  from Cons.prems obtain p' where step: "gossipStep P p ev = Some p'"
    by (cases "gossipStep P p ev") auto
  with Cons.prems have later: "Dead \<in> set (statuses P p' evs)"
    by simp
  have whole: "statuses P p (ev # evs) = status p # statuses P p' evs"
    using step by simp
  show ?case
  proof (cases "status p' = Dead")
    case True
    with step Cons.prems(1) have s: "status p = Suspect"
      by (rule_tac into_dead_from_suspect)
    obtain rest where "statuses P p' evs = Dead # rest"
      using statuses_head [of P p' evs] True by auto
    with whole s have "statuses P p (ev # evs) = [] @ Suspect # Dead # rest \<and> Dead \<notin> set []"
      by simp
    then show ?thesis by blast
  next
    case False
    from Cons.IH [OF False later] obtain pre post
      where split: "statuses P p' evs = pre @ Suspect # Dead # post" and none: "Dead \<notin> set pre"
      by blast
    from whole split none Cons.prems(1)
    have "statuses P p (ev # evs) = (status p # pre) @ Suspect # Dead # post \<and>
        Dead \<notin> set (status p # pre)"
      by simp
    then show ?thesis by blast
  qed
qed

text \<open>
  C7: a transition of a Peer keeps its status or changes it from alive to suspect, from
  suspect to dead, from suspect back to alive (refutation), or from alive or suspect to
  left (departure), and in no other way; and for every sequence of events, if a Peer that
  is not dead at the start (one that has joined is alive) is ever dead, then the first
  time it is dead comes right after a time at which it is suspect.
\<close>

theorem dead_only_after_suspect:
  "(gossipStep P p ev = Some p' \<longrightarrow>
      status p' = status p \<or> allowedChange (status p) (status p')) \<and>
   (status p \<noteq> Dead \<and> Dead \<in> set (statuses P p evs) \<longrightarrow>
      (\<exists>pre post. statuses P p evs = pre @ Suspect # Dead # post \<and> Dead \<notin> set pre))"
  using gossipStep_change [of P p ev p'] dead_after_suspect [of p P evs] by simp

theorem dead_only_after_suspect_witness:
  "allowedChange Alive Suspect \<and>
   (\<exists>pre post.
      statuses sampleParams samplePeer [ProbeMissed 1, Clock 3, Clock 6] =
        pre @ Suspect # Dead # post \<and> Dead \<notin> set pre)"
proof -
  have step:
    "gossipStep sampleParams samplePeer (ProbeMissed 1) =
       Some (samplePeer \<lparr> status := Suspect, missed := 1, suspectSince := 1 \<rparr>)"
    by (simp add: gossipStep_def sampleParams_def samplePeer_def)
  have run:
    "statuses sampleParams samplePeer [ProbeMissed 1, Clock 3, Clock 6] =
       [Alive, Suspect, Suspect, Dead]"
    by (simp add: gossipStep_def sampleParams_def samplePeer_def)
  have start: "status samplePeer \<noteq> Dead \<and>
      Dead \<in> set (statuses sampleParams samplePeer [ProbeMissed 1, Clock 3, Clock 6])"
    unfolding run by (simp add: samplePeer_def)
  show ?thesis
    using step start
      dead_only_after_suspect [of sampleParams samplePeer "ProbeMissed 1"
        "samplePeer \<lparr> status := Suspect, missed := 1, suspectSince := 1 \<rparr>"
        "[ProbeMissed 1, Clock 3, Clock 6]"]
    by (simp add: samplePeer_def)
qed

end
